theory Spec2Isabelle
  imports Complex_Main
begin

section \<open>Steam Pad Simulator: the plugin of hhd/plugins/steam\_pad\_simulator\<close>

text \<open>
  A shallow embedding of \<^verbatim>\<open>SteamPadSimulatorPlugin\<close>: the state dictionary of the
  input thread is a record, every call on the virtual controller, on the emitter and on
  \<^verbatim>\<open>time.sleep\<close> is an entry of an ordered effect list, and the loop over
  \<^verbatim>\<open>read_loop()\<close> is a recursion over the finite list of events the device
  produced before its stream ended.

  Python floats are idealised as rationals: \<^verbatim>\<open>sensitivity\<close>, the product with
  it and \<^verbatim>\<open>SCREEN_WIDTH / 2\<close> are exact here. Logging is left out.
\<close>

subsection \<open>Constants\<close>

text \<open>
  The event codes are those of \<^verbatim>\<open>evdev.ecodes\<close> (the Linux input event codes);
  the screen size is the module's own.
\<close>

definition EV_SYN :: int where "EV_SYN = 0"
definition EV_KEY :: int where "EV_KEY = 1"
definition EV_REL :: int where "EV_REL = 2"
definition EV_ABS :: int where "EV_ABS = 3"
definition ABS_X :: int where "ABS_X = 0"
definition ABS_Y :: int where "ABS_Y = 1"
definition REL_X :: int where "REL_X = 0"
definition REL_Y :: int where "REL_Y = 1"
definition BTN_TOUCH :: int where "BTN_TOUCH = 330"

definition STEAM_DECK_VID :: int where "STEAM_DECK_VID = 10462"
definition STEAM_DECK_PID :: int where "STEAM_DECK_PID = 4418"

definition SCREEN_WIDTH :: int where "SCREEN_WIDTH = 1920"
definition SCREEN_HEIGHT :: int where "SCREEN_HEIGHT = 1080"

subsection \<open>Data\<close>

text \<open>A Python value as it appears in the dictionaries handed to \<^verbatim>\<open>emit.inject\<close>.\<close>

datatype pyval = PStr string | PInt int | PFloat rat | PBool bool | PTuple "int list"

type_synonym command = "(string \<times> pyval) list"

text \<open>The strings \<^verbatim>\<open>'left'\<close> and \<^verbatim>\<open>'right'\<close>.\<close>

datatype side = Left | Right

fun side_name :: "side \<Rightarrow> string" where
  "side_name Left = ''left''"
| "side_name Right = ''right''"

text \<open>What an f-string prints for \<^verbatim>\<open>state['touching']\<close>.\<close>

fun format_touching :: "side option \<Rightarrow> string" where
  "format_touching None = ''None''"
| "format_touching (Some s) = side_name s"

text \<open>An evdev event: \<^verbatim>\<open>event.type\<close>, \<^verbatim>\<open>event.code\<close>, \<^verbatim>\<open>event.value\<close>.\<close>

record input_event =
  ev_type :: int
  ev_code :: int
  ev_value :: int

text \<open>The dictionary \<^verbatim>\<open>state\<close> of the input thread.\<close>

record touch_state =
  touching :: "side option"
  x :: int
  y :: int
  last_x :: int
  last_y :: int

definition initial_state :: touch_state where
  "initial_state = \<lparr>touching = None, x = 0, y = 0, last_x = 0, last_y = 0\<rparr>"

text \<open>The virtual controller object: vendor, product and name given to \<^verbatim>\<open>UInput\<close>.\<close>

datatype uinput = UInput int int string

text \<open>
  The attributes of the plugin object. \<^verbatim>\<open>input_thread\<close> holds the identity of a
  thread object, \<^verbatim>\<open>stop_thread\<close> is whether the threading event is set.
\<close>

record plugin =
  enabled :: bool
  touch_device_path :: "string option"
  sensitivity :: rat
  enable_haptics :: bool
  show_debug_borders :: bool
  virtual_controller :: "uinput option"
  touch_device :: "string option"
  input_thread :: "nat option"
  stop_thread :: bool

text \<open>\<^verbatim>\<open>__init__\<close>\<close>

definition init_plugin :: plugin where
  "init_plugin =
     \<lparr>enabled = False, touch_device_path = None, sensitivity = 1, enable_haptics = True,
      show_debug_borders = False, virtual_controller = None, touch_device = None,
      input_thread = None, stop_thread = False\<rparr>"

text \<open>
  Everything the input thread does to the outside, in order: the construction of the
  virtual controller and of the source device, \<^verbatim>\<open>write\<close>, \<^verbatim>\<open>syn\<close> and
  \<^verbatim>\<open>close\<close> on the virtual controller, \<^verbatim>\<open>emit.inject\<close> and \<^verbatim>\<open>time.sleep\<close>.
\<close>

datatype effect =
    Create uinput
  | Open_device string
  | Write int int int
  | Syn
  | Close
  | Inject command
  | Sleep rat

subsection \<open>The body of the loop\<close>

text \<open>\<^verbatim>\<open>int(...)\<close> on a float: truncation.\<close>

definition int_py :: "rat \<Rightarrow> int" where
  "int_py r = (if r < 0 then \<lceil>r\<rceil> else \<lfloor>r\<rfloor>)"

definition rumble :: "pyval \<Rightarrow> command" where
  "rumble m =
     [(''type'', PStr ''rumble''), (''code'', PStr ''main''),
      (''strong_magnitude'', m), (''weak_magnitude'', m)]"

definition border_rect :: "side \<Rightarrow> command" where
  "border_rect s =
     [(''id'', PStr (''sps_debug_'' @ side_name s)),
      (''type'', PStr ''overlay''),
      (''x'', if s = Left then PInt 0 else PFloat (rat_of_int SCREEN_WIDTH / 2)),
      (''y'', PInt 0),
      (''width'', PFloat (rat_of_int SCREEN_WIDTH / 2)),
      (''height'', PInt SCREEN_HEIGHT),
      (''color'', PTuple [255, 0, 0, 100]),
      (''border_size'', PInt 5)]"

definition remove_rect :: "side option \<Rightarrow> command" where
  "remove_rect t =
     [(''type'', PStr ''overlay''),
      (''id'', PStr (''sps_debug_'' @ format_touching t)),
      (''remove'', PBool True)]"

text \<open>Lines 117 to 119: the coordinates are collected.\<close>

definition collect_coordinates :: "input_event \<Rightarrow> touch_state \<Rightarrow> touch_state" where
  "collect_coordinates event state =
     (if ev_type event = EV_ABS then
        (if ev_code event = ABS_X then state\<lparr>x := ev_value event\<rparr>
         else if ev_code event = ABS_Y then state\<lparr>y := ev_value event\<rparr>
         else state)
      else state)"

text \<open>Line 123, with the width as an argument.\<close>

definition resolve_side :: "int \<Rightarrow> int \<Rightarrow> side" where
  "resolve_side px width = (if rat_of_int px < rat_of_int width / 2 then Left else Right)"

text \<open>Lines 122 to 153: the start and the end of a touch.\<close>

definition handle_touch ::
  "plugin \<Rightarrow> input_event \<Rightarrow> touch_state \<Rightarrow> touch_state \<times> effect list" where
  "handle_touch self event state =
     (if ev_type event = EV_KEY \<and> ev_code event = BTN_TOUCH then
        (let side = resolve_side (x state) SCREEN_WIDTH in
         if ev_value event = 1 \<and> touching state = None then
           (state\<lparr>touching := Some side, last_x := x state, last_y := y state\<rparr>,
            (if enable_haptics self
             then [Inject (rumble (PFloat (6 / 10))), Sleep (5 / 100), Inject (rumble (PInt 0))]
             else []) @
            (if show_debug_borders self then [Inject (border_rect side)] else []))
         else if ev_value event = 0 \<and> touching state \<noteq> None then
           (state\<lparr>touching := None\<rparr>,
            (if show_debug_borders self then [Inject (remove_rect (touching state))] else []))
         else (state, []))
      else (state, []))"

text \<open>Lines 156 to 164: the movement.\<close>

definition handle_movement ::
  "plugin \<Rightarrow> input_event \<Rightarrow> touch_state \<Rightarrow> touch_state \<times> effect list" where
  "handle_movement self event state =
     (if ev_type event = EV_SYN \<and> touching state \<noteq> None then
        (let delta_x = int_py (rat_of_int (x state - last_x state) * sensitivity self);
             delta_y = int_py (rat_of_int (y state - last_y state) * sensitivity self)
         in (state\<lparr>last_x := x state, last_y := y state\<rparr>,
             (if delta_x \<noteq> 0 then [Write EV_REL REL_X delta_x] else []) @
             (if delta_y \<noteq> 0 then [Write EV_REL REL_Y delta_y] else []) @
             [Syn]))
      else (state, []))"

text \<open>One iteration of the loop after the cancellation check: the three blocks in order.\<close>

definition process_event ::
  "plugin \<Rightarrow> input_event \<Rightarrow> touch_state \<Rightarrow> touch_state \<times> effect list" where
  "process_event self event state =
     (let s1 = collect_coordinates event state;
          (s2, out2) = handle_touch self event s1;
          (s3, out3) = handle_movement self event s2
      in (s3, out2 @ out3))"

subsection \<open>The loop and the thread\<close>

text \<open>
  The loop over \<^verbatim>\<open>self.touch_device.read_loop()\<close>. Each event comes with the
  attributes of the plugin as the thread reads them in that iteration: \<^verbatim>\<open>update\<close>
  and \<^verbatim>\<open>close\<close> change them from another thread. The list ends where the stream
  ends.
\<close>

fun read_loop :: "(plugin \<times> input_event) list \<Rightarrow> touch_state \<Rightarrow> touch_state \<times> effect list" where
  "read_loop [] state = (state, [])"
| "read_loop ((self, event) # rest) state =
     (if stop_thread self then (state, [])
      else (let (state', out) = process_event self event state;
                (state'', out') = read_loop rest state'
            in (state'', out @ out')))"

text \<open>The statement of the \<^verbatim>\<open>try\<close> block that raises, if any.\<close>

datatype startup = UInput_raises | InputDevice_raises | Logger_raises | Started

definition the_controller :: uinput where
  "the_controller = UInput STEAM_DECK_VID STEAM_DECK_PID ''HHD Steam Pad Simulator''"

text \<open>
  \<^verbatim>\<open>_input_thread_loop\<close>. \<^verbatim>\<open>InputDevice(None)\<close> raises whatever the
  environment answers.
\<close>

definition input_thread_loop ::
  "startup \<Rightarrow> (plugin \<times> input_event) list \<Rightarrow> plugin \<Rightarrow> plugin \<times> effect list" where
  "input_thread_loop st events self =
     (if st = UInput_raises then (self, [])
      else
        (let self1 = self\<lparr>virtual_controller := Some the_controller\<rparr> in
         case touch_device_path self1 of
           None \<Rightarrow> (self1, [Create the_controller])
         | Some path \<Rightarrow>
             if st = InputDevice_raises then (self1, [Create the_controller])
             else
               (let self2 = self1\<lparr>touch_device := Some path\<rparr> in
                if st = Logger_raises then (self2, [Create the_controller, Open_device path])
                else
                  (self2,
                   [Create the_controller, Open_device path] @
                   snd (read_loop events initial_state) @
                   (if virtual_controller self2 \<noteq> None then [Close] else [])))))"

subsection \<open>The configuration update\<close>

text \<open>
  The section \<^verbatim>\<open>steam_pad_simulator\<close> of the configuration: a key that is absent
  is \<open>None\<close>, and \<^verbatim>\<open>get\<close> supplies the default.
\<close>

record config_section =
  conf_enable :: "bool option"
  conf_device_path :: "string option"
  conf_sensitivity :: "rat option"
  conf_enable_haptics :: "bool option"
  conf_show_debug_borders :: "bool option"

definition empty_section :: config_section where
  "empty_section =
     \<lparr>conf_enable = None, conf_device_path = None, conf_sensitivity = None,
      conf_enable_haptics = None, conf_show_debug_borders = None\<rparr>"

definition get_default :: "'a option \<Rightarrow> 'a \<Rightarrow> 'a" where
  "get_default v d = (case v of Some a \<Rightarrow> a | None \<Rightarrow> d)"

text \<open>The calls on the thread object and on the threading event, in order.\<close>

datatype thread_op = Stop_set | Join nat | Stop_clear | Thread_start nat

text \<open>
  Lines 53 to 56 of \<^verbatim>\<open>update\<close>: the section and the three values read from it
  into local variables. \<open>conf\<close> is \<open>None\<close> when the configuration has no section of
  the plugin.
\<close>

definition section_of :: "config_section option \<Rightarrow> config_section" where
  "section_of conf = get_default conf empty_section"

definition new_enabled :: "config_section option \<Rightarrow> bool" where
  "new_enabled conf = get_default (conf_enable (section_of conf)) False"

definition new_device_path :: "config_section option \<Rightarrow> string" where
  "new_device_path conf = get_default (conf_device_path (section_of conf)) ''/dev/input/event5''"

definition new_sensitivity :: "config_section option \<Rightarrow> rat" where
  "new_sensitivity conf = get_default (conf_sensitivity (section_of conf)) 1"

text \<open>
  \<^verbatim>\<open>update\<close>. \<open>new_thread\<close> is the identity of the thread object that
  \<^verbatim>\<open>threading.Thread\<close> makes if it is called. \<^verbatim>\<open>join\<close> returns once the thread
  has ended.
\<close>

definition update :: "config_section option \<Rightarrow> nat \<Rightarrow> plugin \<Rightarrow> plugin \<times> thread_op list" where
  "update conf new_thread self =
     (let self1 = self\<lparr>enable_haptics :=
                          get_default (conf_enable_haptics (section_of conf)) True,
                        show_debug_borders :=
                          get_default (conf_show_debug_borders (section_of conf)) False\<rparr>;
          (self4, ops) =
            (if enabled self1 \<noteq> new_enabled conf \<or>
                touch_device_path self1 \<noteq> Some (new_device_path conf)
             then
               (let self2 = self1\<lparr>enabled := new_enabled conf,
                                   touch_device_path := Some (new_device_path conf)\<rparr>;
                    (self3, ops1) =
                      (case input_thread self2 of
                         Some t \<Rightarrow> (self2\<lparr>stop_thread := False\<rparr>, [Stop_set, Join t, Stop_clear])
                       | None \<Rightarrow> (self2, []));
                    (self4, ops2) =
                      (if enabled self3
                       then (self3\<lparr>input_thread := Some new_thread\<rparr>, [Thread_start new_thread])
                       else (self3, []))
                in (self4, ops1 @ ops2))
             else (self1, []))
      in (self4\<lparr>sensitivity := new_sensitivity conf\<rparr>, ops))"

text \<open>A sequence of configuration updates, each with the thread object it may start.\<close>

fun updates :: "(config_section option \<times> nat) list \<Rightarrow> plugin \<Rightarrow> plugin \<times> thread_op list" where
  "updates [] self = (self, [])"
| "updates ((conf, new_thread) # rest) self =
     (let (self', ops) = update conf new_thread self;
          (self'', ops') = updates rest self'
      in (self'', ops @ ops'))"

subsection \<open>Notions the properties are stated with\<close>

text \<open>The threads that were started and have not been joined.\<close>

fun thread_step :: "thread_op \<Rightarrow> nat list \<Rightarrow> nat list" where
  "thread_step (Thread_start t) alive = t # alive"
| "thread_step (Join t) alive = remove1 t alive"
| "thread_step Stop_set alive = alive"
| "thread_step Stop_clear alive = alive"

fun alive_after :: "thread_op list \<Rightarrow> nat list \<Rightarrow> nat list" where
  "alive_after [] alive = alive"
| "alive_after (c # ops) alive = alive_after ops (thread_step c alive)"

text \<open>At no moment of the sequence are two threads alive.\<close>

fun never_two :: "thread_op list \<Rightarrow> nat list \<Rightarrow> bool" where
  "never_two [] alive = (length alive \<le> 1)"
| "never_two (c # ops) alive = (length alive \<le> 1 \<and> never_two ops (thread_step c alive))"

text \<open>Every thread that is alive is the one the plugin holds.\<close>

definition tracked :: "plugin \<Rightarrow> nat list \<Rightarrow> bool" where
  "tracked self alive = (alive = [] \<or> map Some alive = [input_thread self])"


text \<open>A press and a release of the touch button.\<close>

definition touch_press :: "input_event \<Rightarrow> bool" where
  "touch_press event =
     (ev_type event = EV_KEY \<and> ev_code event = BTN_TOUCH \<and> ev_value event = 1)"

definition touch_release :: "input_event \<Rightarrow> bool" where
  "touch_release event =
     (ev_type event = EV_KEY \<and> ev_code event = BTN_TOUCH \<and> ev_value event = 0)"

text \<open>The value of the last update of an axis in a list of events, \<open>d\<close> if there is none.\<close>

fun latest_axis :: "int \<Rightarrow> input_event list \<Rightarrow> int \<Rightarrow> int" where
  "latest_axis axis [] d = d"
| "latest_axis axis (event # rest) d =
     latest_axis axis rest
       (if ev_type event = EV_ABS \<and> ev_code event = axis then ev_value event else d)"

text \<open>Events of the four kinds the loop reacts to.\<close>

definition abs_x_event :: "int \<Rightarrow> input_event" where
  "abs_x_event v = \<lparr>ev_type = EV_ABS, ev_code = ABS_X, ev_value = v\<rparr>"

definition abs_y_event :: "int \<Rightarrow> input_event" where
  "abs_y_event v = \<lparr>ev_type = EV_ABS, ev_code = ABS_Y, ev_value = v\<rparr>"

definition btn_touch_event :: "int \<Rightarrow> input_event" where
  "btn_touch_event v = \<lparr>ev_type = EV_KEY, ev_code = BTN_TOUCH, ev_value = v\<rparr>"

definition syn_event :: input_event where
  "syn_event = \<lparr>ev_type = EV_SYN, ev_code = 0, ev_value = 0\<rparr>"

section \<open>Properties\<close>

lemmas ecodes_defs =
  EV_SYN_def EV_KEY_def EV_REL_def EV_ABS_def ABS_X_def ABS_Y_def REL_X_def REL_Y_def
  BTN_TOUCH_def

lemmas event_defs = abs_x_event_def abs_y_event_def btn_touch_event_def syn_event_def

lemmas body_defs =
  process_event_def collect_coordinates_def handle_touch_def handle_movement_def

subsection \<open>Movement on a sync frame\<close>

lemma handle_touch_not_key:
  "ev_type event \<noteq> EV_KEY \<Longrightarrow> handle_touch self event state = (state, [])"
  by (simp add: handle_touch_def)

lemma collect_coordinates_not_abs:
  "ev_type event \<noteq> EV_ABS \<Longrightarrow> collect_coordinates event state = state"
  by (simp add: collect_coordinates_def)

lemma process_event_syn:
  "ev_type event = EV_SYN \<Longrightarrow>
     process_event self event state = handle_movement self event state"
  by (simp add: process_event_def handle_touch_not_key collect_coordinates_not_abs ecodes_defs)

text \<open>
  C2: on a sync frame processed while a touch is active, the loop writes a relative X
  move exactly when the X delta is not zero, a relative Y move exactly when the Y delta
  is not zero, and then calls \<^verbatim>\<open>syn\<close> once, whatever the deltas; with both deltas
  zero the frame is one \<^verbatim>\<open>syn\<close> and no write.
\<close>

theorem sync_frame_writes:
  assumes "ev_type event = EV_SYN" and "touching state \<noteq> None"
    and "dx = int_py (rat_of_int (x state - last_x state) * sensitivity self)"
    and "dy = int_py (rat_of_int (y state - last_y state) * sensitivity self)"
  shows "snd (process_event self event state) =
           (if dx \<noteq> 0 then [Write EV_REL REL_X dx] else []) @
           (if dy \<noteq> 0 then [Write EV_REL REL_Y dy] else []) @ [Syn]
       \<and> (Write EV_REL REL_X dx \<in> set (snd (process_event self event state))) = (dx \<noteq> 0)
       \<and> (Write EV_REL REL_Y dy \<in> set (snd (process_event self event state))) = (dy \<noteq> 0)
       \<and> count_list (snd (process_event self event state)) Syn = 1
       \<and> (dx = 0 \<and> dy = 0 \<longrightarrow> snd (process_event self event state) = [Syn])"
  using assms
  by (simp add: process_event_syn handle_movement_def Let_def REL_X_def REL_Y_def)

theorem sync_frame_writes_witness:
  "ev_type syn_event = EV_SYN
   \<and> touching \<lparr>touching = Some Left, x = 100, y = 130, last_x = 100, last_y = 100\<rparr> \<noteq> None
   \<and> snd (process_event init_plugin syn_event
        \<lparr>touching = Some Left, x = 100, y = 130, last_x = 100, last_y = 100\<rparr>) =
       [Write EV_REL REL_Y 30, Syn]
   \<and> snd (process_event init_plugin syn_event
        \<lparr>touching = Some Left, x = 100, y = 100, last_x = 100, last_y = 100\<rparr>) = [Syn]"
  using
    sync_frame_writes [of syn_event
      "\<lparr>touching = Some Left, x = 100, y = 130, last_x = 100, last_y = 100\<rparr>" 0 init_plugin 30]
    sync_frame_writes [of syn_event
      "\<lparr>touching = Some Left, x = 100, y = 100, last_x = 100, last_y = 100\<rparr>" 0 init_plugin 0]
  by (simp add: syn_event_def init_plugin_def int_py_def)

subsection \<open>The deltas\<close>



lemma int_py_of_int: "int_py (rat_of_int n) = n"
  by (simp add: int_py_def)




subsection \<open>The last position\<close>

lemma int_py_zero: "int_py 0 = 0"
  by (simp add: int_py_def)

lemma process_event_press:
  "touch_press event \<Longrightarrow> touching state = None \<Longrightarrow>
   fst (process_event self event state) =
     state\<lparr>touching := Some (resolve_side (x state) SCREEN_WIDTH),
            last_x := x state, last_y := y state\<rparr>"
  by (simp add: touch_press_def body_defs ecodes_defs Let_def)

lemma process_event_sync_state:
  "ev_type event = EV_SYN \<Longrightarrow> touching state \<noteq> None \<Longrightarrow>
   fst (process_event self event state) = state\<lparr>last_x := x state, last_y := y state\<rparr>"
  by (simp add: process_event_syn handle_movement_def Let_def)

lemma process_event_last_kept:
  "\<not> (touch_press event \<and> touching state = None) \<Longrightarrow>
   \<not> (ev_type event = EV_SYN \<and> touching state \<noteq> None) \<Longrightarrow>
   last_x (fst (process_event self event state)) = last_x state
   \<and> last_y (fst (process_event self event state)) = last_y state"
  by (auto simp: touch_press_def body_defs ecodes_defs Let_def)

text \<open>
  C1, as the code has it: the last position is set to the current position at the start
  of a touch and again after every sync frame processed while a touch is active,
  whether or not a delta was written, and no other event changes it; a sync frame that
  follows another with no axis update in between therefore writes nothing.
\<close>

theorem last_position_updates:
  "(touch_press event \<and> touching state = None \<longrightarrow>
      last_x (fst (process_event self event state)) = x state
    \<and> last_y (fst (process_event self event state)) = y state
    \<and> x (fst (process_event self event state)) = x state
    \<and> y (fst (process_event self event state)) = y state)
   \<and> (ev_type event = EV_SYN \<and> touching state \<noteq> None \<longrightarrow>
      last_x (fst (process_event self event state)) = x state
    \<and> last_y (fst (process_event self event state)) = y state
    \<and> x (fst (process_event self event state)) = x state
    \<and> y (fst (process_event self event state)) = y state
    \<and> snd (process_event self' event (fst (process_event self event state))) = [Syn])
   \<and> (\<not> (touch_press event \<and> touching state = None) \<and>
       \<not> (ev_type event = EV_SYN \<and> touching state \<noteq> None) \<longrightarrow>
      last_x (fst (process_event self event state)) = last_x state
    \<and> last_y (fst (process_event self event state)) = last_y state)"
proof (intro conjI impI)
  assume "touch_press event \<and> touching state = None"
  then have "fst (process_event self event state) =
     state\<lparr>touching := Some (resolve_side (x state) SCREEN_WIDTH),
            last_x := x state, last_y := y state\<rparr>"
    by (simp add: process_event_press)
  then show "last_x (fst (process_event self event state)) = x state"
    and "last_y (fst (process_event self event state)) = y state"
    and "x (fst (process_event self event state)) = x state"
    and "y (fst (process_event self event state)) = y state"
    by simp_all
next
  assume a: "ev_type event = EV_SYN \<and> touching state \<noteq> None"
  then have s: "fst (process_event self event state) = state\<lparr>last_x := x state, last_y := y state\<rparr>"
    by (simp add: process_event_sync_state)
  then show "last_x (fst (process_event self event state)) = x state"
    and "last_y (fst (process_event self event state)) = y state"
    and "x (fst (process_event self event state)) = x state"
    and "y (fst (process_event self event state)) = y state"
    by simp_all
  from a have "snd (process_event self' event (state\<lparr>last_x := x state, last_y := y state\<rparr>)) = [Syn]"
    by (simp add: process_event_syn handle_movement_def Let_def int_py_zero)
  then show "snd (process_event self' event (fst (process_event self event state))) = [Syn]"
    by (simp only: s)
next
  assume "\<not> (touch_press event \<and> touching state = None) \<and>
       \<not> (ev_type event = EV_SYN \<and> touching state \<noteq> None)"
  then show "last_x (fst (process_event self event state)) = last_x state"
    and "last_y (fst (process_event self event state)) = last_y state"
    using process_event_last_kept [of event state self] by simp_all
qed

theorem last_position_updates_witness:
  "ev_type syn_event = EV_SYN
   \<and> touching \<lparr>touching = Some Left, x = 110, y = 90, last_x = 100, last_y = 100\<rparr> \<noteq> None
   \<and> last_x (fst (process_event init_plugin syn_event
        \<lparr>touching = Some Left, x = 110, y = 90, last_x = 100, last_y = 100\<rparr>)) = 110
   \<and> last_y (fst (process_event init_plugin syn_event
        \<lparr>touching = Some Left, x = 110, y = 90, last_x = 100, last_y = 100\<rparr>)) = 90
   \<and> touch_press (btn_touch_event 1)
   \<and> touching \<lparr>touching = None, x = 7, y = 8, last_x = 0, last_y = 0\<rparr> = None
   \<and> last_x (fst (process_event init_plugin (btn_touch_event 1)
        \<lparr>touching = None, x = 7, y = 8, last_x = 0, last_y = 0\<rparr>)) = 7
   \<and> last_y (fst (process_event init_plugin (btn_touch_event 1)
        \<lparr>touching = None, x = 7, y = 8, last_x = 0, last_y = 0\<rparr>)) = 8
   \<and> last_x (fst (process_event init_plugin (abs_x_event 50)
        \<lparr>touching = Some Left, x = 110, y = 90, last_x = 100, last_y = 100\<rparr>)) = 100"
  using
    last_position_updates [of syn_event
      "\<lparr>touching = Some Left, x = 110, y = 90, last_x = 100, last_y = 100\<rparr>" init_plugin init_plugin]
    last_position_updates [of "btn_touch_event 1"
      "\<lparr>touching = None, x = 7, y = 8, last_x = 0, last_y = 0\<rparr>" init_plugin init_plugin]
    last_position_updates [of "abs_x_event 50"
      "\<lparr>touching = Some Left, x = 110, y = 90, last_x = 100, last_y = 100\<rparr>" init_plugin init_plugin]
  by (simp add: event_defs touch_press_def ecodes_defs)

text \<open>
  With sensitivity 0.5, a touch that starts at (100, 100) and moves to (101, 100)
  reaches a sync frame whose deltas are both zero: nothing is written, and the last X
  position moves from 100 to 101 all the same.
\<close>

theorem last_position_zero_delta_counterexample:
  "fst (read_loop
         (map (Pair (init_plugin\<lparr>sensitivity := 1 / 2\<rparr>))
            [abs_x_event 100, abs_y_event 100, btn_touch_event 1, abs_x_event 101])
         initial_state) =
     \<lparr>touching = Some Left, x = 101, y = 100, last_x = 100, last_y = 100\<rparr>
   \<and> int_py (rat_of_int (101 - 100) * sensitivity (init_plugin\<lparr>sensitivity := 1 / 2\<rparr>)) = 0
   \<and> int_py (rat_of_int (100 - 100) * sensitivity (init_plugin\<lparr>sensitivity := 1 / 2\<rparr>)) = 0
   \<and> snd (process_event (init_plugin\<lparr>sensitivity := 1 / 2\<rparr>) syn_event
        \<lparr>touching = Some Left, x = 101, y = 100, last_x = 100, last_y = 100\<rparr>) = [Syn]
   \<and> last_x (fst (process_event (init_plugin\<lparr>sensitivity := 1 / 2\<rparr>) syn_event
        \<lparr>touching = Some Left, x = 101, y = 100, last_x = 100, last_y = 100\<rparr>)) = 101"
  by (simp add: body_defs event_defs ecodes_defs initial_state_def init_plugin_def Let_def
      int_py_def resolve_side_def SCREEN_WIDTH_def floor_eq_iff)

subsection \<open>The side of a touch\<close>

lemma resolve_side_int: "resolve_side px w = (if 2 * px < w then Left else Right)"
proof -
  have "(rat_of_int px < rat_of_int w / 2) = (rat_of_int (2 * px) < rat_of_int w)"
    by (simp add: field_simps)
  also have "\<dots> = (2 * px < w)"
    by (simp only: of_int_less_iff)
  finally show ?thesis by (simp add: resolve_side_def)
qed

lemma touching_kept:
  "touching state = Some s \<Longrightarrow> \<not> touch_release event \<Longrightarrow>
   touching (fst (process_event self event state)) = Some s"
  by (auto simp: touch_release_def body_defs ecodes_defs Let_def)

text \<open>
  C4: the side is left when the X coordinate is below half of the screen width and
  right otherwise; the start of a touch resolves it from the X coordinate of that
  moment, and no later event but the release changes it. With a width of 1920, 100 is
  left, 1800 is right and 960 is right.
\<close>

theorem region_resolver:
  "(\<forall>px w. (resolve_side px w = Left) = (rat_of_int px < rat_of_int w / 2)
          \<and> (resolve_side px w = Right) = (\<not> rat_of_int px < rat_of_int w / 2)
          \<and> resolve_side px w = (if 2 * px < w then Left else Right))
   \<and> (\<forall>self event state.
        touch_press event \<and> touching state = None \<longrightarrow>
        touching (fst (process_event self event state)) =
          Some (resolve_side (x state) SCREEN_WIDTH))
   \<and> (\<forall>self event state s.
        touching state = Some s \<and> \<not> touch_release event \<longrightarrow>
        touching (fst (process_event self event state)) = Some s)
   \<and> SCREEN_WIDTH = 1920
   \<and> resolve_side 100 1920 = Left
   \<and> resolve_side 1800 1920 = Right
   \<and> resolve_side 960 1920 = Right"
proof (intro conjI allI impI)
  fix px w
  show "(resolve_side px w = Left) = (rat_of_int px < rat_of_int w / 2)"
    and "(resolve_side px w = Right) = (\<not> rat_of_int px < rat_of_int w / 2)"
    by (simp_all add: resolve_side_def)
  show "resolve_side px w = (if 2 * px < w then Left else Right)"
    by (rule resolve_side_int)
next
  fix self :: plugin and event :: input_event and state :: touch_state
  assume "touch_press event \<and> touching state = None"
  then show "touching (fst (process_event self event state)) =
          Some (resolve_side (x state) SCREEN_WIDTH)"
    by (simp add: process_event_press)
next
  fix self :: plugin and event :: input_event and state :: touch_state and s
  assume "touching state = Some s \<and> \<not> touch_release event"
  then show "touching (fst (process_event self event state)) = Some s"
    by (simp add: touching_kept)
next
  show "SCREEN_WIDTH = 1920" by (simp add: SCREEN_WIDTH_def)
  show "resolve_side 100 1920 = Left" by (simp add: resolve_side_int)
  show "resolve_side 1800 1920 = Right" by (simp add: resolve_side_int)
  show "resolve_side 960 1920 = Right" by (simp add: resolve_side_int)
qed

theorem region_resolver_witness:
  "touch_press (btn_touch_event 1)
   \<and> touching \<lparr>touching = None, x = 959, y = 0, last_x = 0, last_y = 0\<rparr> = None
   \<and> touching (fst (process_event init_plugin (btn_touch_event 1)
        \<lparr>touching = None, x = 959, y = 0, last_x = 0, last_y = 0\<rparr>)) = Some Left
   \<and> touching (fst (process_event init_plugin (btn_touch_event 1)
        \<lparr>touching = None, x = 960, y = 0, last_x = 0, last_y = 0\<rparr>)) = Some Right
   \<and> \<not> touch_release (abs_x_event 1800)
   \<and> touching (fst (process_event init_plugin (abs_x_event 1800)
        \<lparr>touching = Some Left, x = 100, y = 0, last_x = 100, last_y = 0\<rparr>)) = Some Left"
  using region_resolver
  by (simp add: event_defs touch_press_def touch_release_def ecodes_defs resolve_side_int)

subsection \<open>Events outside a touch\<close>

lemma process_event_idle:
  "touching state = None \<Longrightarrow> \<not> touch_press event \<Longrightarrow>
   process_event self event state = (collect_coordinates event state, [])"
  by (auto simp: touch_press_def body_defs ecodes_defs Let_def)

lemma collect_coordinates_fields:
  "touching (collect_coordinates event state) = touching state"
  "x (collect_coordinates event state) =
     (if ev_type event = EV_ABS \<and> ev_code event = ABS_X then ev_value event else x state)"
  "y (collect_coordinates event state) =
     (if ev_type event = EV_ABS \<and> ev_code event = ABS_Y then ev_value event else y state)"
  by (simp_all add: collect_coordinates_def ABS_X_def ABS_Y_def)

lemma read_loop_idle:
  "touching state = None \<Longrightarrow> \<forall>(self, event) \<in> set events. \<not> touch_press event \<Longrightarrow>
   touching (fst (read_loop events state)) = None \<and> snd (read_loop events state) = []"
proof (induction events arbitrary: state)
  case Nil
  then show ?case by simp
next
  case (Cons a events)
  obtain self event where a: "a = (self, event)" by (cases a)
  from Cons.prems a have np: "\<not> touch_press event"
    and rest: "\<forall>(self, event) \<in> set events. \<not> touch_press event" by auto
  have idle: "touching (collect_coordinates event state) = None"
    using Cons.prems(1) by (simp add: collect_coordinates_fields)
  show ?case
    using Cons.IH [OF idle rest] Cons.prems(1) np
    by (simp add: a process_event_idle split: prod.splits)
qed

lemma read_loop_idle_axes:
  "touching state = None \<Longrightarrow>
   \<forall>(self, event) \<in> set events. \<not> touch_press event \<and> \<not> stop_thread self \<Longrightarrow>
   x (fst (read_loop events state)) = latest_axis ABS_X (map snd events) (x state)
   \<and> y (fst (read_loop events state)) = latest_axis ABS_Y (map snd events) (y state)"
proof (induction events arbitrary: state)
  case Nil
  then show ?case by simp
next
  case (Cons a events)
  obtain self event where a: "a = (self, event)" by (cases a)
  from Cons.prems a have np: "\<not> touch_press event" and ns: "\<not> stop_thread self"
    and rest: "\<forall>(self, event) \<in> set events. \<not> touch_press event \<and> \<not> stop_thread self"
    by auto
  have idle: "touching (collect_coordinates event state) = None"
    using Cons.prems(1) by (simp add: collect_coordinates_fields)
  show ?case
    using Cons.IH [OF idle rest] Cons.prems(1) np ns
    by (simp add: a process_event_idle collect_coordinates_fields split: prod.splits)
qed

text \<open>
  C5: while no touch is active, a sequence of events without a press of the touch
  button (axis updates and sync frames among them) leaves \<open>touching\<close> at \<open>None\<close> and
  produces no effect at all, so no write to the virtual controller; if the loop is not
  cancelled, the coordinates are those of the last axis updates, and a touch that
  starts next takes its side and its last position from them.
\<close>

theorem idle_events_write_nothing:
  assumes "touching state = None"
    and "\<forall>(self, event) \<in> set events. \<not> touch_press event"
  shows "touching (fst (read_loop events state)) = None
       \<and> snd (read_loop events state) = []
       \<and> ((\<forall>(self, event) \<in> set events. \<not> stop_thread self) \<longrightarrow>
            x (fst (read_loop events state)) = latest_axis ABS_X (map snd events) (x state)
          \<and> y (fst (read_loop events state)) = latest_axis ABS_Y (map snd events) (y state)
          \<and> (\<forall>self' press. touch_press press \<longrightarrow>
                touching (fst (process_event self' press (fst (read_loop events state)))) =
                  Some (resolve_side (latest_axis ABS_X (map snd events) (x state)) SCREEN_WIDTH)
              \<and> last_x (fst (process_event self' press (fst (read_loop events state)))) =
                  latest_axis ABS_X (map snd events) (x state)
              \<and> last_y (fst (process_event self' press (fst (read_loop events state)))) =
                  latest_axis ABS_Y (map snd events) (y state)))"
proof (intro conjI impI allI)
  from assms show "touching (fst (read_loop events state)) = None"
    and "snd (read_loop events state) = []"
    by (simp_all add: read_loop_idle)
next
  assume "\<forall>(self, event) \<in> set events. \<not> stop_thread self"
  with assms(2)
  have all: "\<forall>(self, event) \<in> set events. \<not> touch_press event \<and> \<not> stop_thread self"
    by auto
  from read_loop_idle_axes [OF assms(1) all]
  show ax: "x (fst (read_loop events state)) = latest_axis ABS_X (map snd events) (x state)"
    and ay: "y (fst (read_loop events state)) = latest_axis ABS_Y (map snd events) (y state)"
    by simp_all
  fix self' :: plugin and press :: input_event
  assume p: "touch_press press"
  have idle: "touching (fst (read_loop events state)) = None"
    using assms by (simp add: read_loop_idle)
  show "touching (fst (process_event self' press (fst (read_loop events state)))) =
          Some (resolve_side (latest_axis ABS_X (map snd events) (x state)) SCREEN_WIDTH)"
    and "last_x (fst (process_event self' press (fst (read_loop events state)))) =
          latest_axis ABS_X (map snd events) (x state)"
    and "last_y (fst (process_event self' press (fst (read_loop events state)))) =
          latest_axis ABS_Y (map snd events) (y state)"
    by (simp_all add: process_event_press [OF p idle] ax ay)
qed

theorem idle_events_write_nothing_witness:
  "touching initial_state = None
   \<and> snd (read_loop
        (map (Pair init_plugin)
           [abs_x_event 1500, syn_event, abs_y_event 40, abs_x_event 1700, syn_event,
            btn_touch_event 0])
        initial_state) = []
   \<and> fst (read_loop
        (map (Pair init_plugin)
           [abs_x_event 1500, syn_event, abs_y_event 40, abs_x_event 1700, syn_event,
            btn_touch_event 0])
        initial_state) =
       \<lparr>touching = None, x = 1700, y = 40, last_x = 0, last_y = 0\<rparr>
   \<and> fst (process_event init_plugin (btn_touch_event 1)
        \<lparr>touching = None, x = 1700, y = 40, last_x = 0, last_y = 0\<rparr>) =
       \<lparr>touching = Some Right, x = 1700, y = 40, last_x = 1700, last_y = 40\<rparr>"
  using
    idle_events_write_nothing [of initial_state
      "map (Pair init_plugin)
         [abs_x_event 1500, syn_event, abs_y_event 40, abs_x_event 1700, syn_event,
          btn_touch_event 0]"]
  by (simp add: body_defs event_defs ecodes_defs touch_press_def initial_state_def
      init_plugin_def Let_def resolve_side_int SCREEN_WIDTH_def)

subsection \<open>The debug border\<close>

lemma process_event_press_effects:
  "touch_press event \<Longrightarrow> touching state = None \<Longrightarrow>
   snd (process_event self event state) =
     (if enable_haptics self
      then [Inject (rumble (PFloat (6 / 10))), Sleep (5 / 100), Inject (rumble (PInt 0))]
      else []) @
     (if show_debug_borders self
      then [Inject (border_rect (resolve_side (x state) SCREEN_WIDTH))] else [])"
  by (simp add: touch_press_def body_defs ecodes_defs Let_def)

lemma process_event_release:
  "touch_release event \<Longrightarrow> touching state = Some s \<Longrightarrow>
   process_event self event state =
     (state\<lparr>touching := None\<rparr>,
      if show_debug_borders self then [Inject (remove_rect (Some s))] else [])"
  by (simp add: touch_release_def body_defs ecodes_defs Let_def)

lemma process_event_release_idle:
  "touch_release event \<Longrightarrow> touching state = None \<Longrightarrow>
   process_event self event state = (state, [])"
  by (simp add: touch_release_def body_defs ecodes_defs Let_def)

lemma read_loop_touching_kept:
  "touching state = Some s \<Longrightarrow> \<forall>(self, event) \<in> set events. \<not> touch_release event \<Longrightarrow>
   touching (fst (read_loop events state)) = Some s"
proof (induction events arbitrary: state)
  case Nil
  then show ?case by simp
next
  case (Cons a events)
  obtain self event where a: "a = (self, event)" by (cases a)
  from Cons.prems a have nr: "\<not> touch_release event"
    and rest: "\<forall>(self, event) \<in> set events. \<not> touch_release event" by auto
  have kept: "touching (fst (process_event self event state)) = Some s"
    using Cons.prems(1) nr by (rule touching_kept)
  show ?case
    using Cons.IH [OF kept rest] Cons.prems(1)
    by (simp add: a case_prod_beta)
qed

lemma overlay_ids:
  "map_of (border_rect s) ''id'' = Some (PStr (''sps_debug_'' @ side_name s))"
  "map_of (remove_rect (Some s)) ''id'' = Some (PStr (''sps_debug_'' @ side_name s))"
  "map_of (remove_rect t) ''remove'' = Some (PBool True)"
  "map_of (border_rect s) ''remove'' = None"
  by (simp_all add: border_rect_def remove_rect_def)

text \<open>
  C6: with the debug borders enabled, the release that ends a touch emits exactly one
  command, the removal of an overlay, and its id is the id of the overlay shown when
  that touch started, whatever events (axis updates across the middle of the screen
  among them) came in between; a release of the touch button while no touch is active
  emits nothing.
\<close>

theorem debug_border_removed:
  "(\<forall>self1 start state between self2 release.
      touching state = None \<and> touch_press start \<and> show_debug_borders self1
      \<and> (\<forall>(self, event) \<in> set between. \<not> touch_release event)
      \<and> touch_release release \<and> show_debug_borders self2 \<longrightarrow>
      (\<exists>side.
         snd (process_event self1 start state) =
           (if enable_haptics self1
            then [Inject (rumble (PFloat (6 / 10))), Sleep (5 / 100), Inject (rumble (PInt 0))]
            else []) @ [Inject (border_rect side)]
       \<and> snd (process_event self2 release
              (fst (read_loop between (fst (process_event self1 start state))))) =
           [Inject (remove_rect (Some side))]
       \<and> map_of (remove_rect (Some side)) ''id'' = map_of (border_rect side) ''id''
       \<and> map_of (remove_rect (Some side)) ''id'' \<noteq> None
       \<and> map_of (remove_rect (Some side)) ''remove'' = Some (PBool True)
       \<and> map_of (border_rect side) ''remove'' = None
       \<and> touching (fst (process_event self2 release
              (fst (read_loop between (fst (process_event self1 start state)))))) = None))
   \<and> (\<forall>self event state.
        touching state = None \<and> touch_release event \<longrightarrow>
        snd (process_event self event state) = [])"
proof (intro conjI allI impI)
  fix self1 self2 :: plugin and start release :: input_event and state :: touch_state
    and between :: "(plugin \<times> input_event) list"
  assume a: "touching state = None \<and> touch_press start \<and> show_debug_borders self1
      \<and> (\<forall>(self, event) \<in> set between. \<not> touch_release event)
      \<and> touch_release release \<and> show_debug_borders self2"
  define side where "side = resolve_side (x state) SCREEN_WIDTH"
  define s1 where "s1 = fst (process_event self1 start state)"
  define s2 where "s2 = fst (read_loop between s1)"
  have shown: "snd (process_event self1 start state) =
           (if enable_haptics self1
            then [Inject (rumble (PFloat (6 / 10))), Sleep (5 / 100), Inject (rumble (PInt 0))]
            else []) @ [Inject (border_rect side)]"
    using a by (simp add: process_event_press_effects side_def)
  have "touching s1 = Some side"
    using a by (simp add: s1_def side_def process_event_press)
  then have t2: "touching s2 = Some side"
    unfolding s2_def using a by (simp add: read_loop_touching_kept)
  have rel: "process_event self2 release s2 =
      (s2\<lparr>touching := None\<rparr>, [Inject (remove_rect (Some side))])"
    using a t2 by (simp add: process_event_release)
  have "snd (process_event self2 release s2) = [Inject (remove_rect (Some side))]"
    and "touching (fst (process_event self2 release s2)) = None"
    by (simp_all add: rel)
  with shown show "\<exists>side.
         snd (process_event self1 start state) =
           (if enable_haptics self1
            then [Inject (rumble (PFloat (6 / 10))), Sleep (5 / 100), Inject (rumble (PInt 0))]
            else []) @ [Inject (border_rect side)]
       \<and> snd (process_event self2 release
              (fst (read_loop between (fst (process_event self1 start state))))) =
           [Inject (remove_rect (Some side))]
       \<and> map_of (remove_rect (Some side)) ''id'' = map_of (border_rect side) ''id''
       \<and> map_of (remove_rect (Some side)) ''id'' \<noteq> None
       \<and> map_of (remove_rect (Some side)) ''remove'' = Some (PBool True)
       \<and> map_of (border_rect side) ''remove'' = None
       \<and> touching (fst (process_event self2 release
              (fst (read_loop between (fst (process_event self1 start state)))))) = None"
    unfolding s2_def s1_def by (intro exI [of _ side]) (simp add: overlay_ids)
next
  fix self :: plugin and event :: input_event and state :: touch_state
  assume "touching state = None \<and> touch_release event"
  then show "snd (process_event self event state) = []"
    by (simp add: process_event_release_idle)
qed

theorem debug_border_removed_witness:
  "touching initial_state = None \<and> touch_press (btn_touch_event 1)
   \<and> show_debug_borders (init_plugin\<lparr>show_debug_borders := True\<rparr>)
   \<and> touch_release (btn_touch_event 0)
   \<and> snd (read_loop
        (map (Pair (init_plugin\<lparr>show_debug_borders := True, enable_haptics := False\<rparr>))
           [abs_x_event 100, btn_touch_event 1, syn_event, abs_x_event 1800, syn_event,
            btn_touch_event 0, btn_touch_event 0])
        initial_state) =
       [Inject (border_rect Left), Syn, Write EV_REL REL_X 1700, Syn,
        Inject (remove_rect (Some Left))]
   \<and> map_of (remove_rect (Some Left)) ''id'' = Some (PStr ''sps_debug_left'')
   \<and> map_of (border_rect Left) ''id'' = Some (PStr ''sps_debug_left'')"
  using debug_border_removed
  by (simp add: body_defs event_defs ecodes_defs touch_press_def touch_release_def
      initial_state_def init_plugin_def Let_def resolve_side_int SCREEN_WIDTH_def int_py_def
      overlay_ids)

text \<open>
  C7, as the code has it: at the start of a touch with the debug borders enabled, the
  last command emitted is an overlay whose id is \<^verbatim>\<open>sps_debug_\<close> followed by the
  resolved side, whose rectangle is the half of the screen that holds the touch (from 0
  or from 960, 960 wide, 1080 high), whose colour is (255, 0, 0, 100) and whose border
  size is 5.
\<close>

theorem debug_border_shown:
  assumes "touch_press event" and "touching state = None" and "show_debug_borders self"
  shows "\<exists>cmd side.
           side = resolve_side (x state) SCREEN_WIDTH
         \<and> snd (process_event self event state) =
             (if enable_haptics self
              then [Inject (rumble (PFloat (6 / 10))), Sleep (5 / 100), Inject (rumble (PInt 0))]
              else []) @ [Inject cmd]
         \<and> map fst cmd =
             [''id'', ''type'', ''x'', ''y'', ''width'', ''height'', ''color'', ''border_size'']
         \<and> map_of cmd ''id'' = Some (PStr (''sps_debug_'' @ side_name side))
         \<and> map_of cmd ''type'' = Some (PStr ''overlay'')
         \<and> map_of cmd ''x'' = Some (if side = Left then PInt 0 else PFloat 960)
         \<and> map_of cmd ''y'' = Some (PInt 0)
         \<and> map_of cmd ''width'' = Some (PFloat 960)
         \<and> map_of cmd ''height'' = Some (PInt 1080)
         \<and> map_of cmd ''color'' = Some (PTuple [255, 0, 0, 100])
         \<and> map_of cmd ''border_size'' = Some (PInt 5)
         \<and> (side = Left \<longrightarrow> x state < 960)
         \<and> (side = Right \<longrightarrow> 960 \<le> x state)"
proof -
  define side where "side = resolve_side (x state) SCREEN_WIDTH"
  have "snd (process_event self event state) =
             (if enable_haptics self
              then [Inject (rumble (PFloat (6 / 10))), Sleep (5 / 100), Inject (rumble (PInt 0))]
              else []) @ [Inject (border_rect side)]"
    using assms by (simp add: process_event_press_effects side_def)
  moreover have "(side = Left \<longrightarrow> x state < 960) \<and> (side = Right \<longrightarrow> 960 \<le> x state)"
    by (simp add: side_def resolve_side_int SCREEN_WIDTH_def)
  ultimately show ?thesis
    by (intro exI [of _ "border_rect side"] exI [of _ side])
       (simp add: border_rect_def side_def SCREEN_WIDTH_def SCREEN_HEIGHT_def)
qed

theorem debug_border_shown_witness:
  "touch_press (btn_touch_event 1)
   \<and> touching \<lparr>touching = None, x = 1800, y = 500, last_x = 0, last_y = 0\<rparr> = None
   \<and> show_debug_borders (init_plugin\<lparr>show_debug_borders := True\<rparr>)
   \<and> snd (process_event (init_plugin\<lparr>show_debug_borders := True\<rparr>) (btn_touch_event 1)
        \<lparr>touching = None, x = 1800, y = 500, last_x = 0, last_y = 0\<rparr>) =
       [Inject (rumble (PFloat (6 / 10))), Sleep (5 / 100), Inject (rumble (PInt 0)),
        Inject (border_rect Right)]
   \<and> map_of (border_rect Right) ''id'' = Some (PStr ''sps_debug_right'')
   \<and> map_of (border_rect Right) ''x'' = Some (PFloat 960)
   \<and> map_of (border_rect Right) ''width'' = Some (PFloat 960)"
  using
    debug_border_shown [of "btn_touch_event 1"
      "\<lparr>touching = None, x = 1800, y = 500, last_x = 0, last_y = 0\<rparr>"
      "init_plugin\<lparr>show_debug_borders := True\<rparr>"]
  by (simp add: body_defs btn_touch_event_def ecodes_defs touch_press_def init_plugin_def
      Let_def resolve_side_int SCREEN_WIDTH_def border_rect_def)

text \<open>
  A touch that starts at X = 100 with the debug borders enabled emits an overlay whose
  id is \<^verbatim>\<open>sps_debug_left\<close>, not \<^verbatim>\<open>debug-left\<close>.
\<close>

theorem debug_border_id_counterexample:
  "snd (process_event (init_plugin\<lparr>enable_haptics := False, show_debug_borders := True\<rparr>)
         (btn_touch_event 1)
         \<lparr>touching = None, x = 100, y = 100, last_x = 0, last_y = 0\<rparr>) =
     [Inject (border_rect Left)]
   \<and> resolve_side 100 SCREEN_WIDTH = Left
   \<and> map_of (border_rect Left) ''id'' = Some (PStr ''sps_debug_left'')
   \<and> map_of (border_rect Left) ''id'' \<noteq> Some (PStr (''debug-'' @ side_name Left))"
  by (simp add: body_defs btn_touch_event_def ecodes_defs init_plugin_def Let_def
      resolve_side_int SCREEN_WIDTH_def border_rect_def)

subsection \<open>Cancellation and the end of the thread\<close>









subsection \<open>A failure at startup\<close>

text \<open>
  C10: when the virtual controller was made and the opening of the source device, or the
  statement after it, raises, the thread returns at once: the controller stays in the
  plugin, no event is processed and \<^verbatim>\<open>close\<close> is not called. The thread calls
  \<^verbatim>\<open>close\<close> only when it reached the loop.
\<close>

theorem startup_failure_keeps_controller_open:
  "(st = InputDevice_raises \<or> st = Logger_raises \<longrightarrow>
      virtual_controller (fst (input_thread_loop st events self)) = Some the_controller
    \<and> snd (input_thread_loop st events self) =
        (case touch_device_path self of
           None \<Rightarrow> [Create the_controller]
         | Some path \<Rightarrow>
             if st = InputDevice_raises then [Create the_controller]
             else [Create the_controller, Open_device path])
    \<and> Create the_controller \<in> set (snd (input_thread_loop st events self))
    \<and> Close \<notin> set (snd (input_thread_loop st events self)))
   \<and> (Close \<in> set (snd (input_thread_loop st events self))) =
       (st = Started \<and> touch_device_path self \<noteq> None)"
proof -
  have "(Close \<in> set (snd (input_thread_loop st events self))) =
       (st = Started \<and> touch_device_path self \<noteq> None)"
    by (cases st; cases "touch_device_path self")
       (simp_all add: input_thread_loop_def Let_def)
  moreover have "st = InputDevice_raises \<or> st = Logger_raises \<longrightarrow>
      virtual_controller (fst (input_thread_loop st events self)) = Some the_controller
    \<and> snd (input_thread_loop st events self) =
        (case touch_device_path self of
           None \<Rightarrow> [Create the_controller]
         | Some path \<Rightarrow>
             if st = InputDevice_raises then [Create the_controller]
             else [Create the_controller, Open_device path])
    \<and> Create the_controller \<in> set (snd (input_thread_loop st events self))
    \<and> Close \<notin> set (snd (input_thread_loop st events self))"
    by (cases st; cases "touch_device_path self")
       (simp_all add: input_thread_loop_def Let_def)
  ultimately show ?thesis by blast
qed

theorem startup_failure_keeps_controller_open_witness:
  "virtual_controller (fst (input_thread_loop InputDevice_raises
        [(init_plugin, abs_x_event 100), (init_plugin, btn_touch_event 1)]
        (init_plugin\<lparr>touch_device_path := Some ''/dev/input/event5''\<rparr>))) =
     Some the_controller
   \<and> snd (input_thread_loop InputDevice_raises
        [(init_plugin, abs_x_event 100), (init_plugin, btn_touch_event 1)]
        (init_plugin\<lparr>touch_device_path := Some ''/dev/input/event5''\<rparr>)) =
       [Create the_controller]
   \<and> snd (input_thread_loop Logger_raises
        [(init_plugin, abs_x_event 100), (init_plugin, btn_touch_event 1)]
        (init_plugin\<lparr>touch_device_path := Some ''/dev/input/event5''\<rparr>)) =
       [Create the_controller, Open_device ''/dev/input/event5'']
   \<and> snd (input_thread_loop UInput_raises
        [(init_plugin, abs_x_event 100), (init_plugin, btn_touch_event 1)]
        (init_plugin\<lparr>touch_device_path := Some ''/dev/input/event5''\<rparr>)) = []"
  using
    startup_failure_keeps_controller_open [of InputDevice_raises
      "[(init_plugin, abs_x_event 100), (init_plugin, btn_touch_event 1)]"
      "init_plugin\<lparr>touch_device_path := Some ''/dev/input/event5''\<rparr>"]
    startup_failure_keeps_controller_open [of Logger_raises
      "[(init_plugin, abs_x_event 100), (init_plugin, btn_touch_event 1)]"
      "init_plugin\<lparr>touch_device_path := Some ''/dev/input/event5''\<rparr>"]
  by (simp add: input_thread_loop_def init_plugin_def)

subsection \<open>Configuration updates\<close>

lemmas conf_defs = section_of_def new_enabled_def new_device_path_def new_sensitivity_def

lemma update_unchanged:
  "new_enabled conf = enabled self \<Longrightarrow> Some (new_device_path conf) = touch_device_path self \<Longrightarrow>
   update conf t self =
     (self\<lparr>enable_haptics := get_default (conf_enable_haptics (section_of conf)) True,
           show_debug_borders := get_default (conf_show_debug_borders (section_of conf)) False,
           sensitivity := new_sensitivity conf\<rparr>, [])"
  by (simp add: update_def Let_def)

lemma update_settles:
  "enabled (fst (update conf t self)) = new_enabled conf
   \<and> touch_device_path (fst (update conf t self)) = Some (new_device_path conf)"
  by (auto simp: update_def Let_def case_prod_beta split: option.splits)

lemma update_twice: "snd (update conf t' (fst (update conf t self))) = []"
  using update_settles [of conf t self] by (simp add: update_unchanged)

lemma updates_settled:
  "new_enabled conf = enabled self \<Longrightarrow> Some (new_device_path conf) = touch_device_path self \<Longrightarrow>
   snd (updates (map (Pair conf) ts) self) = []"
proof (induction ts arbitrary: self)
  case Nil
  then show ?case by simp
next
  case (Cons t ts)
  have "snd (updates (map (Pair conf) ts) (fst (update conf t self))) = []"
    using update_settles [of conf t self] by (intro Cons.IH) simp_all
  then show ?case
    using Cons.prems by (simp add: case_prod_beta update_unchanged)
qed

lemma updates_repeated:
  "snd (updates (map (Pair conf) (t # ts)) self) = snd (update conf t self)"
proof -
  have "snd (updates (map (Pair conf) ts) (fst (update conf t self))) = []"
    using update_settles [of conf t self] by (intro updates_settled) simp_all
  then show ?thesis by (simp add: case_prod_beta)
qed

lemma never_two_length: "never_two ops alive \<Longrightarrow> length alive \<le> 1"
  by (cases ops) simp_all

lemma never_two_append:
  "never_two (ops @ ops') alive =
     (never_two ops alive \<and> never_two ops' (alive_after ops alive))"
proof (induction ops arbitrary: alive)
  case Nil
  show ?case using never_two_length [of ops' alive] by auto
next
  case (Cons c ops)
  then show ?case by simp
qed

lemma alive_after_append:
  "alive_after (ops @ ops') alive = alive_after ops' (alive_after ops alive)"
  by (induction ops arbitrary: alive) simp_all

lemma update_tracked:
  "tracked self alive \<Longrightarrow>
   never_two (snd (update conf t self)) alive
   \<and> tracked (fst (update conf t self)) (alive_after (snd (update conf t self)) alive)"
  by (auto simp: tracked_def update_def Let_def case_prod_beta split: option.splits)

lemma updates_tracked:
  "tracked self alive \<Longrightarrow>
   never_two (snd (updates confs self)) alive
   \<and> tracked (fst (updates confs self)) (alive_after (snd (updates confs self)) alive)"
proof (induction confs arbitrary: self alive)
  case Nil
  then show ?case by (auto simp: tracked_def)
next
  case (Cons a confs)
  obtain conf t where a: "a = (conf, t)" by (cases a)
  note step = update_tracked [OF Cons.prems, of conf t]
  from step have "tracked (fst (update conf t self)) (alive_after (snd (update conf t self)) alive)"
    by simp
  from Cons.IH [OF this] step show ?case
    by (simp add: a case_prod_beta never_two_append alive_after_append)
qed

text \<open>
  C9: an update whose \<open>enable\<close> and \<open>device_path\<close> are those the plugin already has
  calls nothing on the thread or on the stop flag and changes only the haptics flag, the
  border flag and the sensitivity. Applying one configuration again therefore does
  nothing more than its first application did; from a new plugin a configuration with
  \<open>enable\<close> true, applied any number of times, starts one thread. In every sequence of
  updates a thread is joined before the next is started, so no two are alive at a time.
\<close>

theorem update_same_config:
  "(\<forall>conf t self.
      new_enabled conf = enabled self \<and> Some (new_device_path conf) = touch_device_path self \<longrightarrow>
      snd (update conf t self) = []
    \<and> fst (update conf t self) =
        self\<lparr>enable_haptics := get_default (conf_enable_haptics (section_of conf)) True,
              show_debug_borders := get_default (conf_show_debug_borders (section_of conf)) False,
              sensitivity := new_sensitivity conf\<rparr>
    \<and> input_thread (fst (update conf t self)) = input_thread self
    \<and> stop_thread (fst (update conf t self)) = stop_thread self)
   \<and> (\<forall>conf t t' self. snd (update conf t' (fst (update conf t self))) = [])
   \<and> (\<forall>conf t ts self.
        snd (updates (map (Pair conf) (t # ts)) self) = snd (update conf t self))
   \<and> (\<forall>conf t ts.
        new_enabled conf \<longrightarrow>
        snd (updates (map (Pair conf) (t # ts)) init_plugin) = [Thread_start t])
   \<and> (\<forall>confs. never_two (snd (updates confs init_plugin)) [])"
proof (intro conjI allI impI)
  fix conf t and self :: plugin
  assume "new_enabled conf = enabled self \<and> Some (new_device_path conf) = touch_device_path self"
  then have u: "update conf t self =
     (self\<lparr>enable_haptics := get_default (conf_enable_haptics (section_of conf)) True,
           show_debug_borders := get_default (conf_show_debug_borders (section_of conf)) False,
           sensitivity := new_sensitivity conf\<rparr>, [])"
    by (simp add: update_unchanged)
  show "snd (update conf t self) = []"
    and "fst (update conf t self) =
        self\<lparr>enable_haptics := get_default (conf_enable_haptics (section_of conf)) True,
              show_debug_borders := get_default (conf_show_debug_borders (section_of conf)) False,
              sensitivity := new_sensitivity conf\<rparr>"
    and "input_thread (fst (update conf t self)) = input_thread self"
    and "stop_thread (fst (update conf t self)) = stop_thread self"
    by (simp_all add: u)
next
  fix conf t t' and self :: plugin
  show "snd (update conf t' (fst (update conf t self))) = []"
    by (rule update_twice)
next
  fix conf t ts and self :: plugin
  show "snd (updates (map (Pair conf) (t # ts)) self) = snd (update conf t self)"
    by (rule updates_repeated)
next
  fix conf t ts
  assume "new_enabled conf"
  then have "snd (update conf t init_plugin) = [Thread_start t]"
    by (simp add: update_def init_plugin_def Let_def)
  then show "snd (updates (map (Pair conf) (t # ts)) init_plugin) = [Thread_start t]"
    by (simp only: updates_repeated)
next
  fix confs
  have "tracked init_plugin []"
    by (simp add: tracked_def)
  then show "never_two (snd (updates confs init_plugin)) []"
    by (simp add: updates_tracked)
qed

theorem update_same_config_witness:
  "new_enabled (Some (empty_section\<lparr>conf_enable := Some True\<rparr>))
   \<and> snd (updates
        (map (Pair (Some (empty_section\<lparr>conf_enable := Some True\<rparr>))) [1, 2, 3])
        init_plugin) = [Thread_start 1]
   \<and> alive_after
        (snd (updates
           (map (Pair (Some (empty_section\<lparr>conf_enable := Some True\<rparr>))) [1, 2, 3])
           init_plugin)) [] = [1]
   \<and> snd (updates
        [(Some (empty_section\<lparr>conf_enable := Some True\<rparr>), 1),
         (Some (empty_section\<lparr>conf_enable := Some True, conf_sensitivity := Some 2\<rparr>), 2),
         (Some (empty_section\<lparr>conf_enable := Some True,
                                conf_device_path := Some ''/dev/input/event7''\<rparr>), 3)]
        init_plugin) =
       [Thread_start 1, Stop_set, Join 1, Stop_clear, Thread_start 3]
   \<and> sensitivity (fst (updates
        [(Some (empty_section\<lparr>conf_enable := Some True\<rparr>), 1),
         (Some (empty_section\<lparr>conf_enable := Some True, conf_sensitivity := Some 2\<rparr>), 2)]
        init_plugin)) = 2"
  using update_same_config
  by (simp add: update_def conf_defs get_default_def empty_section_def init_plugin_def Let_def)

end
